theory Spec2Isabelle
  imports Complex_Main
begin

section \<open>The table renderer of ts-markdown\<close>

text \<open>
  A shallow embedding of the table renderer (\<^verbatim>\<open>tableRenderer\<close>, \<^verbatim>\<open>getTableMarkdown\<close> and
  their helpers). Thrown errors are values of a sum type, the in-place escaping of the
  entry is explicit state passing (the renderer returns the entry as it leaves it), and
  the rendering engine \<^verbatim>\<open>renderEntries\<close>, which lives in another module, is a parameter
  \<open>rE\<close> of every function that reaches it.
\<close>

subsection \<open>JavaScript values and strings\<close>

text \<open>
  A table cell is a primitive or a nested rich-text entry: a tree of JavaScript values.
  Objects are association lists in key order (\<^verbatim>\<open>Object.keys\<close>); a tree has no sharing.
\<close>

datatype jsval =
    JUndefined
  | JNull
  | JBool bool
  | JNum int
  | JStr string
  | JArr "jsval list"
  | JObj "(string \<times> jsval) list"
  | JFun "string \<Rightarrow> string"

datatype error = WrongEntryKind | UnsupportedCellContent | TypeError

text \<open>\<^verbatim>\<open>xs.map(f)\<close> where \<open>f\<close> may throw: the first throw, left to right, aborts.\<close>

fun mapE :: "('a \<Rightarrow> error + 'b) \<Rightarrow> 'a list \<Rightarrow> error + 'b list" where
  "mapE f [] = Inr []"
| "mapE f (x # xs) =
     (case f x of
        Inl e \<Rightarrow> Inl e
      | Inr y \<Rightarrow> (case mapE f xs of Inl e \<Rightarrow> Inl e | Inr ys \<Rightarrow> Inr (y # ys)))"

text \<open>\<^verbatim>\<open>Array.prototype.join\<close> on strings.\<close>

fun join :: "string \<Rightarrow> string list \<Rightarrow> string" where
  "join sep [] = []"
| "join sep [x] = x"
| "join sep (x # y # ys) = x @ sep @ join sep (y # ys)"

text \<open>\<^verbatim>\<open>s.split(c)\<close> for a one-character separator.\<close>

fun split :: "string \<Rightarrow> char \<Rightarrow> string list" where
  "split [] c = [[]]"
| "split (x # xs) c =
     (if x = c then [] # split xs c
      else (case split xs c of [] \<Rightarrow> [[x]] | p # ps \<Rightarrow> (x # p) # ps))"

text \<open>\<^verbatim>\<open>s.replaceAll(c, r)\<close> for a one-character pattern and a replacement without \<^verbatim>\<open>$\<close>.\<close>

fun replaceAll :: "string \<Rightarrow> char \<Rightarrow> string \<Rightarrow> string" where
  "replaceAll [] c r = []"
| "replaceAll (x # xs) c r = (if x = c then r else [x]) @ replaceAll xs c r"

text \<open>
  \<^verbatim>\<open>ToLength\<close> of a number: truncation towards zero, negative values become 0.
  Numbers that are not integers arise as halves only, so they are rationals here.
\<close>

definition toLength :: "rat \<Rightarrow> nat" where
  "toLength x = nat (if x < 0 then \<lceil>x\<rceil> else \<lfloor>x\<rfloor>)"

text \<open>The fill of \<^verbatim>\<open>padStart\<close> and \<^verbatim>\<open>padEnd\<close>: the fill string repeated and cut.\<close>

definition filler :: "nat \<Rightarrow> string \<Rightarrow> string" where
  "filler n fillString = take n (concat (replicate n fillString))"

definition padStart :: "string \<Rightarrow> nat \<Rightarrow> string \<Rightarrow> string" where
  "padStart s maxLength fillString =
     (if maxLength \<le> length s \<or> fillString = [] then s
      else filler (maxLength - length s) fillString @ s)"

definition padEnd :: "string \<Rightarrow> nat \<Rightarrow> string \<Rightarrow> string" where
  "padEnd s maxLength fillString =
     (if maxLength \<le> length s \<or> fillString = [] then s
      else s @ filler (maxLength - length s) fillString)"

subsection \<open>The data model\<close>

record TableColumn =
  name :: string
  field :: "string option"
  align :: "string option"

datatype Column = BareColumn string | StructColumn TableColumn

datatype Row = ArrayRow "jsval list" | ObjectRow "(string \<times> jsval) list"

record Table =
  columns :: "Column list"
  rows :: "Row list"

text \<open>
  An optional property is an \<open>option\<close>; \<^verbatim>\<open>'table' in entry\<close> is \<open>table entry \<noteq> None\<close>.
  The field \<^verbatim>\<open>append\<close> is \<open>append_str\<close> here.
\<close>

record TableEntry =
  table :: "Table option"
  append_str :: "string option"
  pipeReplacer :: "(string \<Rightarrow> string) option"
  prefixCellValues :: "bool option"

record RenderOptions =
  prefix :: "string option"

record RenderResult =
  markdown :: string
  blockLevel :: bool

type_synonym 'o renderer = "jsval list \<Rightarrow> 'o RenderOptions_scheme \<Rightarrow> jsval"

subsection \<open>Escaping\<close>

definition defaultPipeReplacer :: "string \<Rightarrow> string" where
  "defaultPipeReplacer content = replaceAll content (CHR ''|'') ''&#124;''"

text \<open>
  \<^verbatim>\<open>escapePipes\<close> on a value. An array passes both the \<^verbatim>\<open>Array.isArray\<close> loop and,
  being an object, the \<^verbatim>\<open>Object.keys\<close> loop that follows it: each element is escaped
  twice. An object's values are escaped, its keys are not.
\<close>

function escapePipes :: "(string \<Rightarrow> string) \<Rightarrow> jsval \<Rightarrow> jsval" where
  "escapePipes rep (JStr s) = JStr (rep s)"
| "escapePipes rep (JArr xs) = JArr (map (escapePipes rep) (map (escapePipes rep) xs))"
| "escapePipes rep (JObj kvs) = JObj (map (map_prod id (escapePipes rep)) kvs)"
| "escapePipes rep JUndefined = JUndefined"
| "escapePipes rep JNull = JNull"
| "escapePipes rep (JBool b) = JBool b"
| "escapePipes rep (JNum n) = JNum n"
| "escapePipes rep (JFun f) = JFun f"
  by pat_completeness auto

lemma escapePipes_size:
  "escapePipes_dom (rep, v) \<Longrightarrow> size (escapePipes rep v) = size v"
proof (induction rep v rule: escapePipes.pinduct)
  case (2 rep xs)
  then show ?case
    by (simp add: escapePipes.psimps size_list_conv_sum_list comp_def cong: map_cong)
next
  case (3 rep kvs)
  then show ?case
    apply (simp add: escapePipes.psimps size_list_conv_sum_list comp_def cong: map_cong)
    apply (rule arg_cong[where f=sum_list])
    apply (rule map_cong, simp)
    apply (case_tac x)
    apply auto
    done
qed (simp_all add: escapePipes.psimps)

termination escapePipes
proof (relation "measure (\<lambda>(rep, v). size v)")
  show "wf (measure (\<lambda>(rep, v). size v))" by simp
next
  fix rep :: "string \<Rightarrow> string" and xs :: "jsval list" and x
  assume "x \<in> set xs"
  then show "((rep, x), (rep, JArr xs)) \<in> measure (\<lambda>(rep, v). size v)"
    by (simp add: less_Suc_eq_le size_list_estimation')
next
  fix rep :: "string \<Rightarrow> string" and xs :: "jsval list" and x
  assume dom: "\<And>x. x \<in> set xs \<Longrightarrow> escapePipes_dom (rep, x)"
    and x: "x \<in> set (map (escapePipes rep) xs)"
  from x obtain y where y: "y \<in> set xs" and xy: "x = escapePipes rep y" by auto
  have "size x = size y" using dom[OF y] xy by (simp add: escapePipes_size)
  with y show "((rep, x), (rep, JArr xs)) \<in> measure (\<lambda>(rep, v). size v)"
    by (simp add: less_Suc_eq_le size_list_estimation')
next
  fix rep :: "string \<Rightarrow> string" and kvs :: "(string \<times> jsval) list" and x z2
  assume x: "x \<in> set kvs" and z: "z2 \<in> Basic_BNFs.snds x"
  from z have "size z2 \<le> size_prod (\<lambda>x. 0) size x" by (cases x) simp
  also from x have "\<dots> \<le> size_list (size_prod (\<lambda>x. 0) size) kvs"
    by (simp add: size_list_estimation')
  finally show "((rep, z2), (rep, JObj kvs)) \<in> measure (\<lambda>(rep, v). size v)"
    by simp
qed

text \<open>
  The same walk over a table entry, along its type. \<^verbatim>\<open>columns\<close> and \<^verbatim>\<open>rows\<close> are
  arrays, so their elements are escaped twice; a row that is itself an array escapes
  its cells twice on each of the two visits. Functions and booleans are left alone.
\<close>

definition escapeColumn :: "(string \<Rightarrow> string) \<Rightarrow> Column \<Rightarrow> Column" where
  "escapeColumn rep column =
     (case column of
        BareColumn s \<Rightarrow> BareColumn (rep s)
      | StructColumn c \<Rightarrow>
          StructColumn (c\<lparr>name := rep (name c),
                          field := map_option rep (field c),
                          align := map_option rep (align c)\<rparr>))"

definition escapeRow :: "(string \<Rightarrow> string) \<Rightarrow> Row \<Rightarrow> Row" where
  "escapeRow rep row =
     (case row of
        ArrayRow cells \<Rightarrow> ArrayRow (map (escapePipes rep) (map (escapePipes rep) cells))
      | ObjectRow kvs \<Rightarrow> ObjectRow (map (map_prod id (escapePipes rep)) kvs))"

definition escapeTable :: "(string \<Rightarrow> string) \<Rightarrow> Table \<Rightarrow> Table" where
  "escapeTable rep t =
     \<lparr>columns = map (escapeColumn rep) (map (escapeColumn rep) (columns t)),
      rows = map (escapeRow rep) (map (escapeRow rep) (rows t))\<rparr>"

definition escapeEntry :: "(string \<Rightarrow> string) \<Rightarrow> TableEntry \<Rightarrow> TableEntry" where
  "escapeEntry rep entry =
     entry\<lparr>table := map_option (escapeTable rep) (table entry),
           append_str := map_option rep (append_str entry)\<rparr>"

text \<open>The entry as the JavaScript object that \<^verbatim>\<open>escapePipes\<close> receives.\<close>

definition optProp :: "string \<Rightarrow> ('a \<Rightarrow> jsval) \<Rightarrow> 'a option \<Rightarrow> (string \<times> jsval) list" where
  "optProp key f v = (case v of None \<Rightarrow> [] | Some x \<Rightarrow> [(key, f x)])"

definition jsColumn :: "Column \<Rightarrow> jsval" where
  "jsColumn column =
     (case column of
        BareColumn s \<Rightarrow> JStr s
      | StructColumn c \<Rightarrow>
          JObj ([(''name'', JStr (name c))] @ optProp ''field'' JStr (field c)
                @ optProp ''align'' JStr (align c)))"

definition jsRow :: "Row \<Rightarrow> jsval" where
  "jsRow row = (case row of ArrayRow cells \<Rightarrow> JArr cells | ObjectRow kvs \<Rightarrow> JObj kvs)"

definition jsTable :: "Table \<Rightarrow> jsval" where
  "jsTable t =
     JObj [(''columns'', JArr (map jsColumn (columns t))),
           (''rows'', JArr (map jsRow (rows t)))]"

definition jsEntry :: "TableEntry \<Rightarrow> jsval" where
  "jsEntry entry =
     JObj (optProp ''table'' jsTable (table entry)
           @ optProp ''append'' JStr (append_str entry)
           @ optProp ''pipeReplacer'' JFun (pipeReplacer entry)
           @ optProp ''prefixCellValues'' JBool (prefixCellValues entry))"

subsection \<open>Columns, cells and padding\<close>

definition getColumnName :: "Column \<Rightarrow> string" where
  "getColumnName column = (case column of BareColumn s \<Rightarrow> s | StructColumn c \<Rightarrow> name c)"

definition getColumnHeaderTextLength :: "Column \<Rightarrow> nat" where
  "getColumnHeaderTextLength column =
     (case column of BareColumn s \<Rightarrow> length s | StructColumn c \<Rightarrow> length (name c))"

definition getDataRowPropertyName :: "Column \<Rightarrow> string" where
  "getDataRowPropertyName column =
     (case column of
        BareColumn s \<Rightarrow> s
      | StructColumn c \<Rightarrow> (case field c of Some f \<Rightarrow> f | None \<Rightarrow> name c))"

text \<open>
  \<^verbatim>\<open>renderCellText\<close>: the parameter \<^verbatim>\<open>prefixCellValues\<close> defaults to true when the
  entry does not set it.
\<close>

definition renderCellText ::
  "'o renderer \<Rightarrow> jsval \<Rightarrow> 'o RenderOptions_scheme \<Rightarrow> bool option \<Rightarrow> jsval" where
  "renderCellText rE v options pcv =
     rE [v] (options\<lparr>prefix :=
               (if (case pcv of None \<Rightarrow> True | Some b \<Rightarrow> b) then prefix options
                else Some [])\<rparr>)"

text \<open>\<^verbatim>\<open>!column.align\<close>: the property is undefined or the empty string.\<close>

definition falsy :: "string option \<Rightarrow> bool" where
  "falsy a = (case a of None \<Rightarrow> True | Some s \<Rightarrow> s = [])"

text \<open>
  \<^verbatim>\<open>padAlign\<close>. The target of the centring \<^verbatim>\<open>padStart\<close> is
  \<^verbatim>\<open>cellText.length + Math.floor(cellWidth - cellText.length) / 2\<close>: the floor is taken
  before the division, so the target can end in one half, and \<^verbatim>\<open>padStart\<close> truncates it.
\<close>

definition padAlign :: "string \<Rightarrow> nat \<Rightarrow> Column \<Rightarrow> string" where
  "padAlign cellText cellWidth column =
     (case column of
        BareColumn s \<Rightarrow> padEnd cellText cellWidth '' ''
      | StructColumn c \<Rightarrow>
          if align c = Some ''left'' \<or> falsy (align c)
          then padEnd cellText cellWidth '' ''
          else if align c = Some ''center''
          then padEnd
                 (padStart cellText
                    (toLength (of_nat (length cellText)
                       + of_int \<lfloor>(of_nat cellWidth :: rat) - of_nat (length cellText)\<rfloor> / 2))
                    '' '')
                 cellWidth '' ''
          else if align c = Some ''right''
          then padStart cellText cellWidth '' ''
          else cellText)"

text \<open>
  \<^verbatim>\<open>padAlign(cellText, cellWidths[index], columns[index])\<close> as the renderer calls it.
  A column that is undefined throws at \<^verbatim>\<open>column.align\<close>, and so does a text that is
  not a string at \<^verbatim>\<open>cellText.padEnd\<close> or \<^verbatim>\<open>cellText.padStart\<close>. A width that is
  undefined pads nothing, as the width 0 does. (For a text that is not a string under an
  \<^verbatim>\<open>align\<close> outside its type, JavaScript would hand the value on unpadded; the model
  reports the type error there too.)
\<close>

definition widthAt :: "nat list \<Rightarrow> nat \<Rightarrow> nat" where
  "widthAt cellWidths index = (if index < length cellWidths then cellWidths ! index else 0)"

definition padCell :: "jsval \<Rightarrow> nat list \<Rightarrow> Column list \<Rightarrow> nat \<Rightarrow> error + string" where
  "padCell cellText cellWidths cols index =
     (if index < length cols
      then (case cellText of
              JStr s \<Rightarrow> Inr (padAlign s (widthAt cellWidths index) (cols ! index))
            | _ \<Rightarrow> Inl TypeError)
      else Inl TypeError)"

subsection \<open>Column widths\<close>

text \<open>\<^verbatim>\<open>row[key]\<close> on a mapping row (its own properties) and \<^verbatim>\<open>row[i]\<close> on an array row.\<close>

definition getProp :: "(string \<times> jsval) list \<Rightarrow> string \<Rightarrow> jsval" where
  "getProp kvs key = (case map_of kvs key of None \<Rightarrow> JUndefined | Some v \<Rightarrow> v)"

definition cellValue :: "nat \<Rightarrow> Column \<Rightarrow> Row \<Rightarrow> jsval" where
  "cellValue i column row =
     (case row of
        ArrayRow cells \<Rightarrow> (if i < length cells then cells ! i else JUndefined)
      | ObjectRow kvs \<Rightarrow> getProp kvs (getDataRowPropertyName column))"

definition isUndefined :: "jsval \<Rightarrow> bool" where
  "isUndefined v = (case v of JUndefined \<Rightarrow> True | _ \<Rightarrow> False)"

text \<open>
  The \<^verbatim>\<open>reduce\<close> over the rows that collects one column's cell texts; it throws at
  the first defined value whose rendering is not a string.
\<close>

fun columnCellTexts ::
  "'o renderer \<Rightarrow> 'o RenderOptions_scheme \<Rightarrow> bool option \<Rightarrow> nat \<Rightarrow> Column
   \<Rightarrow> Row list \<Rightarrow> string list \<Rightarrow> error + string list" where
  "columnCellTexts rE options pcv i column [] prev = Inr prev"
| "columnCellTexts rE options pcv i column (row # rest) prev =
     (if isUndefined (cellValue i column row)
      then columnCellTexts rE options pcv i column rest prev
      else (case renderCellText rE (cellValue i column row) options pcv of
              JStr result \<Rightarrow> columnCellTexts rE options pcv i column rest (prev @ [result])
            | _ \<Rightarrow> Inl UnsupportedCellContent))"

definition minColumnWidth :: nat where
  "minColumnWidth = 3"

text \<open>\<^verbatim>\<open>lengths.reduce((prev, curr) => Math.max(minColumnWidth, prev, curr), 0)\<close>\<close>

definition reduceMax :: "nat list \<Rightarrow> nat" where
  "reduceMax lengths = foldl (\<lambda>prev x. max minColumnWidth (max prev x)) 0 lengths"

definition columnWidth ::
  "'o renderer \<Rightarrow> Table \<Rightarrow> bool option \<Rightarrow> 'o RenderOptions_scheme \<Rightarrow> nat \<Rightarrow> error + nat" where
  "columnWidth rE t pcv options i =
     (case columnCellTexts rE options pcv i (columns t ! i) (rows t) [] of
        Inl e \<Rightarrow> Inl e
      | Inr texts \<Rightarrow>
          Inr (reduceMax (getColumnHeaderTextLength (columns t ! i) # map length texts)))"

text \<open>The loop \<^verbatim>\<open>for (let i = 0; i < columnCount; i++)\<close> that fills \<^verbatim>\<open>cellWidths\<close>.\<close>

definition cellWidthsOf ::
  "'o renderer \<Rightarrow> Table \<Rightarrow> bool option \<Rightarrow> 'o RenderOptions_scheme \<Rightarrow> error + nat list" where
  "cellWidthsOf rE t pcv options =
     mapE (columnWidth rE t pcv options) [0..<length (columns t)]"

subsection \<open>Rows\<close>

text \<open>
  The parameter \<^verbatim>\<open>columns\<close> of the row builders is \<open>cols\<close> here; the source reads
  both it and \<^verbatim>\<open>entry.table.columns\<close>, which its one caller makes the same array.
\<close>

definition getLeftSideAlignmentCharacter :: "Column \<Rightarrow> string" where
  "getLeftSideAlignmentCharacter column =
     (case column of
        BareColumn s \<Rightarrow> '' ''
      | StructColumn c \<Rightarrow>
          if align c = Some ''left'' \<or> align c = Some ''center'' then '':'' else '' '')"

definition getRightSideAlignmentCharacter :: "Column \<Rightarrow> string" where
  "getRightSideAlignmentCharacter column =
     (case column of
        BareColumn s \<Rightarrow> '' ''
      | StructColumn c \<Rightarrow>
          if align c = Some ''right'' \<or> align c = Some ''center'' then '':'' else '' '')"

definition dividerCell :: "Column list \<Rightarrow> nat \<times> nat \<Rightarrow> error + string" where
  "dividerCell cols ic =
     (case ic of (index, cellWidth) \<Rightarrow>
        if index < length cols
        then Inr (getLeftSideAlignmentCharacter (cols ! index)
                  @ padStart [] cellWidth ''-''
                  @ getRightSideAlignmentCharacter (cols ! index))
        else Inl TypeError)"

definition buildDividerRow :: "nat list \<Rightarrow> Column list \<Rightarrow> error + string" where
  "buildDividerRow cellWidths cols =
     (case mapE (dividerCell cols) (enumerate 0 cellWidths) of
        Inl e \<Rightarrow> Inl e
      | Inr cells \<Rightarrow> Inr (''|'' @ join ''|'' cells @ ''|''))"

definition headerCell :: "nat list \<Rightarrow> Column list \<Rightarrow> nat \<times> Column \<Rightarrow> error + string" where
  "headerCell cellWidths cols ic =
     (case ic of (index, column) \<Rightarrow>
        padCell (JStr (getColumnName column)) cellWidths cols index)"

definition buildHeaderRow :: "TableEntry \<Rightarrow> nat list \<Rightarrow> Column list \<Rightarrow> error + string" where
  "buildHeaderRow entry cellWidths cols =
     (case table entry of
        None \<Rightarrow> Inl TypeError
      | Some t \<Rightarrow>
          (case mapE (headerCell cellWidths cols) (enumerate 0 (columns t)) of
             Inl e \<Rightarrow> Inl e
           | Inr cells \<Rightarrow> Inr (''| '' @ join '' | '' cells @ '' |'')))"

text \<open>\<^verbatim>\<open>x ?? ''\<close>\<close>

definition orEmpty :: "jsval \<Rightarrow> jsval" where
  "orEmpty v = (case v of JUndefined \<Rightarrow> JStr [] | JNull \<Rightarrow> JStr [] | _ \<Rightarrow> v)"

text \<open>
  The cells of one data row. An array row maps over its own cells, a mapping row over
  the columns.
\<close>

definition dataRowCells ::
  "'o renderer \<Rightarrow> TableEntry \<Rightarrow> Table \<Rightarrow> nat list \<Rightarrow> Column list
   \<Rightarrow> 'o RenderOptions_scheme \<Rightarrow> Row \<Rightarrow> error + string list" where
  "dataRowCells rE entry t cellWidths cols options row =
     (case row of
        ArrayRow cells \<Rightarrow>
          mapE (\<lambda>(index, cell).
                  padCell (renderCellText rE cell options (prefixCellValues entry))
                    cellWidths (columns t) index)
            (enumerate 0 cells)
      | ObjectRow kvs \<Rightarrow>
          mapE (\<lambda>(index, column).
                  padCell
                    (orEmpty (renderCellText rE (getProp kvs (getDataRowPropertyName column))
                                options (prefixCellValues entry)))
                    cellWidths (columns t) index)
            (enumerate 0 cols))"

definition dataRow ::
  "'o renderer \<Rightarrow> TableEntry \<Rightarrow> Table \<Rightarrow> nat list \<Rightarrow> Column list
   \<Rightarrow> 'o RenderOptions_scheme \<Rightarrow> Row \<Rightarrow> error + string" where
  "dataRow rE entry t cellWidths cols options row =
     (case dataRowCells rE entry t cellWidths cols options row of
        Inl e \<Rightarrow> Inl e
      | Inr cells \<Rightarrow> Inr (''| '' @ join '' | '' cells @ '' |''))"

definition buildDataRows ::
  "'o renderer \<Rightarrow> TableEntry \<Rightarrow> nat list \<Rightarrow> Column list \<Rightarrow> 'o RenderOptions_scheme
   \<Rightarrow> error + string list" where
  "buildDataRows rE entry cellWidths cols options =
     (case table entry of
        None \<Rightarrow> Inl TypeError
      | Some t \<Rightarrow> mapE (dataRow rE entry t cellWidths cols options) (rows t))"

subsection \<open>The renderer\<close>

definition newline :: string where
  "newline = [CHR 0x0A]"

text \<open>
  \<^verbatim>\<open>getTableMarkdown\<close>: the escaping comes first and changes the entry in place, so the
  entry is returned with the result, also when the rendering throws afterwards.
\<close>

definition getTableMarkdown ::
  "'o renderer \<Rightarrow> TableEntry \<Rightarrow> 'o RenderOptions_scheme \<Rightarrow> (error + string) \<times> TableEntry" where
  "getTableMarkdown rE entry options =
     (let entry' = escapeEntry
            (case pipeReplacer entry of None \<Rightarrow> defaultPipeReplacer | Some f \<Rightarrow> f) entry
      in (case table entry' of
            None \<Rightarrow> Inl TypeError
          | Some t \<Rightarrow>
             (case cellWidthsOf rE t (prefixCellValues entry') options of
                Inl e \<Rightarrow> Inl e
              | Inr cellWidths \<Rightarrow>
                 (case buildHeaderRow entry' cellWidths (columns t) of
                    Inl e \<Rightarrow> Inl e
                  | Inr header \<Rightarrow>
                     (case buildDividerRow cellWidths (columns t) of
                        Inl e \<Rightarrow> Inl e
                      | Inr divider \<Rightarrow>
                         (case buildDataRows rE entry' cellWidths (columns t) options of
                            Inl e \<Rightarrow> Inl e
                          | Inr dataRows \<Rightarrow>
                              Inr (join newline (header # divider # dataRows)))))),
          entry'))"

definition tableRenderer ::
  "'o renderer \<Rightarrow> TableEntry \<Rightarrow> 'o RenderOptions_scheme
   \<Rightarrow> (error + RenderResult) \<times> TableEntry" where
  "tableRenderer rE entry options =
     (case table entry of
        Some t \<Rightarrow>
          (case getTableMarkdown rE entry options of
             (Inl e, entry') \<Rightarrow> (Inl e, entry')
           | (Inr md, entry') \<Rightarrow> (Inr \<lparr>markdown = md, blockLevel = True\<rparr>, entry'))
      | None \<Rightarrow> (Inl WrongEntryKind, entry))"

text \<open>The decimal digits of a number, for the text of a numeric cell.\<close>

fun digits :: "nat \<Rightarrow> string" where
  "digits n = (if n < 10 then [''0123456789'' ! n]
               else digits (n div 10) @ [''0123456789'' ! (n mod 10)])"

definition showInt :: "int \<Rightarrow> string" where
  "showInt k = (if k < 0 then ''-'' @ digits (nat (- k)) else digits (nat k))"

text \<open>
  The inline text of a cell value: a string is its own text, a number its decimal
  notation, a boolean its name, a missing value the empty string. The markup that a
  nested rich-text entry adds belongs to the rendering engine and is not described; the
  text of an entry is taken to be the texts of its values in order.
\<close>

fun cellText :: "jsval \<Rightarrow> string" where
  "cellText (JStr s) = s"
| "cellText (JNum k) = showInt k"
| "cellText (JBool b) = (if b then ''true'' else ''false'')"
| "cellText JUndefined = []"
| "cellText JNull = []"
| "cellText (JArr xs) = concat (map cellText xs)"
| "cellText (JObj kvs) = concat (map snd (map (map_prod id cellText) kvs))"
| "cellText (JFun f) = []"

text \<open>
  Modelled from the spec: \<^verbatim>\<open>renderEntries\<close> is imported from the rendering module,
  which is not among the sources. The spec gives its contract:
  \<^verbatim>\<open>renderEntries(sequenceOfOneEntry, options) -> string\<close> resolves a cell, a primitive
  or a nested entry, to its inline text, and the \<^verbatim>\<open>prefix\<close> of the options is applied
  to each rendered line. This sample renderer follows those words and is used for
  concrete evaluations only: every entry renders to a string, the text of the entry
  with the prefix in front of each of its lines. The empty text of a missing value is
  one empty line, so it renders as the prefix alone. The renderer proper is a parameter
  of the model.
\<close>

definition renderOne :: "string \<Rightarrow> jsval \<Rightarrow> string" where
  "renderOne pre v = join newline (map (\<lambda>line. pre @ line) (split (cellText v) (CHR 0x0A)))"

definition sampleRenderEntries :: "'o renderer" where
  "sampleRenderEntries vs options =
     JStr (join newline
             (map (renderOne (case prefix options of None \<Rightarrow> [] | Some p \<Rightarrow> p)) vs))"

subsection \<open>The divider row in words\<close>

definition alignOf :: "Column \<Rightarrow> string option" where
  "alignOf column = (case column of BareColumn s \<Rightarrow> None | StructColumn c \<Rightarrow> align c)"

text \<open>
  The divider cell as the specification words it: the dashes, a colon in front for
  \<^verbatim>\<open>left\<close> and \<^verbatim>\<open>center\<close>, a colon behind for \<^verbatim>\<open>right\<close> and \<^verbatim>\<open>center\<close>, and nothing
  else around the dashes.
\<close>

definition spec_dividerCell :: "nat \<Rightarrow> Column \<Rightarrow> string" where
  "spec_dividerCell w column =
     (if alignOf column \<in> {Some ''left'', Some ''center''} then '':'' else [])
     @ replicate w (CHR ''-'')
     @ (if alignOf column \<in> {Some ''right'', Some ''center''} then '':'' else [])"

definition spec_dividerRow :: "nat list \<Rightarrow> Column list \<Rightarrow> string" where
  "spec_dividerRow ws cs = ''|'' @ join ''|'' (map2 spec_dividerCell ws cs) @ ''|''"

text \<open>The same cell with a space wherever there is no colon.\<close>

definition spacedDividerCell :: "nat \<Rightarrow> Column \<Rightarrow> string" where
  "spacedDividerCell w column =
     (if alignOf column \<in> {Some ''left'', Some ''center''} then '':'' else '' '')
     @ replicate w (CHR ''-'')
     @ (if alignOf column \<in> {Some ''right'', Some ''center''} then '':'' else '' '')"

subsection \<open>Column widths in words\<close>

text \<open>
  The texts that count for the width of column \<open>i\<close>: the rendered text of every row
  whose value in that column is defined.
\<close>

definition definedCellTexts ::
  "'o renderer \<Rightarrow> 'o RenderOptions_scheme \<Rightarrow> bool option \<Rightarrow> nat \<Rightarrow> Column \<Rightarrow> Row list \<Rightarrow> string set" where
  "definedCellTexts rE options pcv i column rs =
     {s. \<exists>row. row \<in> set rs \<and> cellValue i column row \<noteq> JUndefined
            \<and> renderCellText rE (cellValue i column row) options pcv = JStr s}"

subsection \<open>Typing and single-line texts\<close>

text \<open>
  The type of \<^verbatim>\<open>align\<close> is \<^verbatim>\<open>'left' | 'center' | 'right'\<close>, optional. The model keeps
  the property as a string, since the escaping hands every string of the entry to the
  replacer; \<open>alignTyped\<close> says that the value is one the type allows.
\<close>

definition alignTyped :: "Column \<Rightarrow> bool" where
  "alignTyped column =
     (alignOf column \<in> {None, Some ''left'', Some ''center'', Some ''right''})"

text \<open>The values of a row that the data-row phase renders.\<close>

definition rowValues :: "Column list \<Rightarrow> Row \<Rightarrow> jsval list" where
  "rowValues cols row =
     (case row of
        ArrayRow cells \<Rightarrow> cells
      | ObjectRow kvs \<Rightarrow> map (\<lambda>column. getProp kvs (getDataRowPropertyName column)) cols)"

definition singleLine :: "jsval \<Rightarrow> bool" where
  "singleLine v = (case v of JStr s \<Rightarrow> CHR 0x0A \<notin> set s | _ \<Rightarrow> True)"

subsection \<open>Sample tables\<close>

definition nameAgeTable :: Table where
  "nameAgeTable =
     \<lparr>columns = [BareColumn ''Name'', BareColumn ''Age''],
      rows = [ObjectRow [(''Name'', JStr ''Alice''), (''Age'', JStr ''30'')],
              ObjectRow [(''Name'', JStr ''Bo'')]]\<rparr>"

definition nameAgeEntry :: TableEntry where
  "nameAgeEntry = \<lparr>table = Some nameAgeTable, append_str = None, pipeReplacer = None,
                   prefixCellValues = None\<rparr>"

definition headerBreakTable :: Table where
  "headerBreakTable = \<lparr>columns = [BareColumn [CHR ''a'', CHR 0x0A, CHR ''b'']], rows = []\<rparr>"

definition headerBreakEntry :: TableEntry where
  "headerBreakEntry = \<lparr>table = Some headerBreakTable, append_str = None, pipeReplacer = None,
                       prefixCellValues = None\<rparr>"

definition pipeFieldColumn :: Column where
  "pipeFieldColumn = StructColumn \<lparr>name = ''n'', field = Some ''a|b'', align = None\<rparr>"

definition pipeFieldTable :: "(string \<times> jsval) list \<Rightarrow> Table" where
  "pipeFieldTable kvs = \<lparr>columns = [pipeFieldColumn], rows = [ObjectRow kvs]\<rparr>"

definition pipeFieldEntry :: "(string \<times> jsval) list \<Rightarrow> TableEntry" where
  "pipeFieldEntry kvs =
     \<lparr>table = Some (pipeFieldTable kvs),
      append_str = Some ''x|y'', pipeReplacer = None, prefixCellValues = None\<rparr>"

definition multiLineEntry :: "jsval \<Rightarrow> TableEntry" where
  "multiLineEntry cell =
     \<lparr>table = Some \<lparr>columns = [BareColumn ''c''], rows = [ArrayRow [cell]]\<rparr>,
      append_str = None, pipeReplacer = None, prefixCellValues = None\<rparr>"

definition twoColumnTable :: "Row \<Rightarrow> Table" where
  "twoColumnTable row = \<lparr>columns = [BareColumn ''a'', BareColumn ''b''], rows = [row]\<rparr>"

definition twoColumnEntry :: "Row \<Rightarrow> TableEntry" where
  "twoColumnEntry row =
     \<lparr>table = Some (twoColumnTable row), append_str = None, pipeReplacer = None,
      prefixCellValues = None\<rparr>"

text \<open>A replacer that rewrites every string, and a column aligned \<^verbatim>\<open>left\<close>.\<close>

definition bangEntry :: TableEntry where
  "bangEntry =
     \<lparr>table = Some \<lparr>columns = [StructColumn \<lparr>name = ''a'', field = None, align = Some ''left''\<rparr>],
                     rows = [ObjectRow []]\<rparr>,
      append_str = None, pipeReplacer = Some (\<lambda>content. content @ ''!''),
      prefixCellValues = None\<rparr>"

section \<open>Auxiliary facts\<close>

lemma mapE_length: "mapE f xs = Inr ys \<Longrightarrow> length ys = length xs"
  by (induction xs arbitrary: ys) (auto split: sum.splits)

lemma mapE_nth: "mapE f xs = Inr ys \<Longrightarrow> i < length xs \<Longrightarrow> f (xs ! i) = Inr (ys ! i)"
  by (induction xs arbitrary: ys i) (auto split: sum.splits nat.splits simp: nth_Cons)

lemma mapE_Inl: "mapE f xs = Inl e \<Longrightarrow> \<exists>x\<in>set xs. f x = Inl e"
  by (induction xs) (auto split: sum.splits)

lemma mapE_map: "(\<And>x. x \<in> set xs \<Longrightarrow> f x = Inr (g x)) \<Longrightarrow> mapE f xs = Inr (map g xs)"
  by (induction xs) auto

lemma filler_single: "filler n [c] = replicate n c"
proof -
  have "concat (replicate n [c]) = replicate n c" by (induction n) auto
  then show ?thesis by (simp add: filler_def)
qed

lemma padStart_space: "padStart s n '' '' = replicate (n - length s) (CHR '' '') @ s"
  by (simp add: padStart_def filler_single)

lemma padEnd_space: "padEnd s n '' '' = s @ replicate (n - length s) (CHR '' '')"
  by (simp add: padEnd_def filler_single)

lemma floor_half: "\<lfloor>(of_nat a :: rat) + of_nat k / 2\<rfloor> = int a + int k div 2"
proof -
  have "\<lfloor>(of_nat a :: rat) + of_nat k / 2\<rfloor> = int a + \<lfloor>(of_nat k :: rat) / of_nat 2\<rfloor>"
    by simp
  also have "\<lfloor>(of_nat k :: rat) / of_nat 2\<rfloor> = int (k div 2)"
    by (rule floor_divide_of_nat_eq)
  finally show ?thesis by simp
qed

text \<open>The centring target, although it may end in one half, truncates to the floor.\<close>

lemma toLength_half: "toLength (of_nat a + of_nat k / 2) = a + k div 2"
proof -
  have "\<not> (of_nat a :: rat) + of_nat k / 2 < 0"
    by (simp add: not_less add_nonneg_nonneg)
  then show ?thesis
    by (simp only: toLength_def floor_half if_False)
qed

text \<open>Which errors each phase can throw.\<close>

lemma padCell_error: "padCell v ws cs i = Inl e \<Longrightarrow> e = TypeError"
  by (auto simp: padCell_def split: if_splits jsval.splits)

lemma columnCellTexts_error:
  "columnCellTexts rE options pcv i column rs prev = Inl e \<Longrightarrow> e = UnsupportedCellContent"
  by (induction rs arbitrary: prev) (auto split: if_splits jsval.splits)

lemma cellWidthsOf_error: "cellWidthsOf rE t pcv options = Inl e \<Longrightarrow> e = UnsupportedCellContent"
  by (auto simp: cellWidthsOf_def columnWidth_def dest!: mapE_Inl columnCellTexts_error
           split: sum.splits)

lemma buildHeaderRow_error: "buildHeaderRow entry ws cs = Inl e \<Longrightarrow> e = TypeError"
  by (auto simp: buildHeaderRow_def headerCell_def dest!: mapE_Inl padCell_error
           split: option.splits sum.splits)

lemma buildDividerRow_error: "buildDividerRow ws cs = Inl e \<Longrightarrow> e = TypeError"
  by (auto simp: buildDividerRow_def dividerCell_def dest!: mapE_Inl
           split: sum.splits if_splits)

lemma dataRowCells_error: "dataRowCells rE entry t ws cs options row = Inl e \<Longrightarrow> e = TypeError"
  by (auto simp: dataRowCells_def dest!: mapE_Inl padCell_error split: Row.splits)

lemma buildDataRows_error: "buildDataRows rE entry ws cs options = Inl e \<Longrightarrow> e = TypeError"
  by (auto simp: buildDataRows_def dataRow_def dest!: mapE_Inl dataRowCells_error
           split: option.splits sum.splits)

lemma getTableMarkdown_error:
  "fst (getTableMarkdown rE entry options) = Inl e \<Longrightarrow> e = TypeError \<or> e = UnsupportedCellContent"
  by (auto simp: getTableMarkdown_def Let_def
           dest!: cellWidthsOf_error buildHeaderRow_error buildDividerRow_error buildDataRows_error
           split: option.splits sum.splits)

section \<open>The claims\<close>

subsection \<open>Padding\<close>

text \<open>
  Claim C5. For a cell text \<open>t\<close> no longer than the width \<open>w\<close>, \<^verbatim>\<open>padAlign\<close> appends
  \<open>w - |t|\<close> spaces for a bare-string column, for a structured column aligned
  \<^verbatim>\<open>left\<close> and for a structured column without \<^verbatim>\<open>align\<close>; it prepends them for a
  column aligned \<^verbatim>\<open>right\<close>; for \<^verbatim>\<open>center\<close> it prepends \<open>(w - |t|) div 2\<close> spaces and
  appends the rest, so that an odd space left over lands on the right.
\<close>

theorem padAlign_pads:
  assumes "length t \<le> w"
  shows "padAlign t w (BareColumn s) = t @ replicate (w - length t) (CHR '' '')
    \<and> (align c = Some ''left'' \<or> align c = None \<longrightarrow>
         padAlign t w (StructColumn c) = t @ replicate (w - length t) (CHR '' ''))
    \<and> (align c = Some ''right'' \<longrightarrow>
         padAlign t w (StructColumn c) = replicate (w - length t) (CHR '' '') @ t)
    \<and> (align c = Some ''center'' \<longrightarrow>
         padAlign t w (StructColumn c) =
           replicate ((w - length t) div 2) (CHR '' '') @ t
           @ replicate (w - length t - (w - length t) div 2) (CHR '' ''))"
proof -
  obtain k where w: "w = length t + k" using assms by (auto simp: le_iff_add)
  show ?thesis
    unfolding w
    by (auto simp: padAlign_def padStart_space padEnd_space falsy_def toLength_half)
qed

theorem padAlign_pads_witness:
  "length ''ab'' \<le> (5::nat)
   \<and> padAlign ''ab'' 5 (BareColumn ''h'') = ''ab   ''
   \<and> padAlign ''ab'' 5 (StructColumn \<lparr>name = ''h'', field = None, align = None\<rparr>) = ''ab   ''
   \<and> padAlign ''ab'' 5 (StructColumn \<lparr>name = ''h'', field = None, align = Some ''right''\<rparr>)
       = ''   ab''
   \<and> padAlign ''ab'' 5 (StructColumn \<lparr>name = ''h'', field = None, align = Some ''center''\<rparr>)
       = '' ab  ''"
  using padAlign_pads [of "''ab''" 5 "''h''" "\<lparr>name = ''h'', field = None, align = None\<rparr>"]
    padAlign_pads [of "''ab''" 5 "''h''"
      "\<lparr>name = ''h'', field = None, align = Some ''right''\<rparr>"]
    padAlign_pads [of "''ab''" 5 "''h''"
      "\<lparr>name = ''h'', field = None, align = Some ''center''\<rparr>"]
  apply simp
  apply (simp add: numeral_eq_Suc)
  done

subsection \<open>An entry that is not a table\<close>

text \<open>
  Claim C9. An entry without the \<^verbatim>\<open>table\<close> property is rejected with the error
  \<open>WrongEntryKind\<close> and no output, and the entry comes back as it went in: nothing was
  escaped. The error is distinct: no entry that has the property ever yields it.
\<close>

theorem tableRenderer_wrong_entry_kind:
  "(table entry = None \<longrightarrow> tableRenderer rE entry options = (Inl WrongEntryKind, entry))
   \<and> (fst (tableRenderer rE entry options) = Inl WrongEntryKind \<longrightarrow> table entry = None)"
proof (cases "table entry")
  case None
  then show ?thesis by (simp add: tableRenderer_def)
next
  case (Some t)
  obtain r entry' where g: "getTableMarkdown rE entry options = (r, entry')"
    by (cases "getTableMarkdown rE entry options")
  have "r \<noteq> Inl WrongEntryKind"
    using getTableMarkdown_error[of rE entry options WrongEntryKind] g by auto
  with Some g show ?thesis
    by (auto simp: tableRenderer_def split: sum.splits)
qed

theorem tableRenderer_wrong_entry_kind_witness:
  "table \<lparr>table = None, append_str = Some ''a|b'', pipeReplacer = None,
           prefixCellValues = None\<rparr> = None
   \<and> tableRenderer sampleRenderEntries
        \<lparr>table = None, append_str = Some ''a|b'', pipeReplacer = None, prefixCellValues = None\<rparr>
        \<lparr>prefix = None\<rparr>
      = (Inl WrongEntryKind,
         \<lparr>table = None, append_str = Some ''a|b'', pipeReplacer = None, prefixCellValues = None\<rparr>)"
  using tableRenderer_wrong_entry_kind [of
      "\<lparr>table = None, append_str = Some ''a|b'', pipeReplacer = None, prefixCellValues = None\<rparr>"
      sampleRenderEntries "\<lparr>prefix = None\<rparr>"]
  by simp

subsection \<open>Escaping twice\<close>

lemma replaceAll_notin: "c \<notin> set r \<Longrightarrow> c \<notin> set (replaceAll s c r)"
  by (induction s) auto

lemma replaceAll_id: "c \<notin> set s \<Longrightarrow> replaceAll s c r = s"
  by (induction s) auto

lemma defaultPipeReplacer_idem:
  "defaultPipeReplacer (defaultPipeReplacer s) = defaultPipeReplacer s"
  unfolding defaultPipeReplacer_def
  by (rule replaceAll_id, rule replaceAll_notin) simp

lemma escapePipes_idem:
  assumes "\<And>s. rep (rep s) = rep s"
  shows "escapePipes rep (escapePipes rep v) = escapePipes rep v"
  using assms
proof (induction rep v rule: escapePipes.induct)
  case (2 rep xs)
  then show ?case by simp
next
  case (3 rep kvs)
  then show ?case by (auto simp: map_prod_def split: prod.splits)
qed simp_all

text \<open>
  Claim C8 says that, with the default replacer, some string containing a pipe changes
  again when it is escaped a second time. No string does: the entity \<^verbatim>\<open>&#124;\<close> that
  replaces a pipe contains no pipe.
\<close>

theorem defaultPipeReplacer_double_counterexample:
  "\<not> (\<exists>s. CHR ''|'' \<in> set s
         \<and> defaultPipeReplacer (defaultPipeReplacer s) \<noteq> defaultPipeReplacer s)"
  by (simp add: defaultPipeReplacer_idem)

text \<open>
  Claim C8, amended. With the default replacer escaping is idempotent, on a string and
  on a whole value: escaping the escaped result again changes nothing.
\<close>

theorem escapePipes_default_idempotent:
  "defaultPipeReplacer (defaultPipeReplacer s) = defaultPipeReplacer s
   \<and> escapePipes defaultPipeReplacer (escapePipes defaultPipeReplacer v)
       = escapePipes defaultPipeReplacer v"
  by (simp add: defaultPipeReplacer_idem escapePipes_idem)

subsection \<open>The divider row\<close>

lemma dividerCell_spaced:
  "index < length cs \<Longrightarrow>
   dividerCell cs (index, w) = Inr (spacedDividerCell w (cs ! index))"
  by (auto simp: dividerCell_def spacedDividerCell_def alignOf_def padStart_def filler_single
        getLeftSideAlignmentCharacter_def getRightSideAlignmentCharacter_def split: Column.splits)

text \<open>
  Claim C2 has the dashes of a column without a colon stand directly between the pipes.
  For the single bare column \<^verbatim>\<open>abc\<close> of width 3 that would be \<^verbatim>\<open>|---|\<close>; the divider
  row built is \<^verbatim>\<open>| --- |\<close>.
\<close>

theorem buildDividerRow_counterexample:
  "buildDividerRow [3] [BareColumn ''abc''] = Inr ''| --- |''
   \<and> spec_dividerRow [3] [BareColumn ''abc''] = ''|---|''
   \<and> buildDividerRow [3] [BareColumn ''abc''] \<noteq> Inr (spec_dividerRow [3] [BareColumn ''abc''])"
  by code_simp

text \<open>
  Claim C2, amended. The divider row has, per column, exactly \<open>width\<close> dashes, preceded
  by a colon when the column is aligned \<^verbatim>\<open>left\<close> or \<^verbatim>\<open>center\<close> and by a space otherwise,
  followed by a colon when it is aligned \<^verbatim>\<open>right\<close> or \<^verbatim>\<open>center\<close> and by a space
  otherwise; the cells are joined by pipes and enclosed in pipes. A bare-string column
  and a structured column without \<^verbatim>\<open>align\<close> get a space on either side and no colon.
\<close>

theorem buildDividerRow_cells:
  assumes "length ws = length cs"
  shows "buildDividerRow ws cs = Inr (''|'' @ join ''|'' (map2 spacedDividerCell ws cs) @ ''|'')"
proof -
  have "mapE (dividerCell cs) (enumerate 0 ws)
        = Inr (map (\<lambda>(index, w). spacedDividerCell w (cs ! index)) (enumerate 0 ws))"
    by (rule mapE_map) (auto simp: in_set_enumerate_eq assms dividerCell_spaced)
  moreover have "map (\<lambda>(index, w). spacedDividerCell w (cs ! index)) (enumerate 0 ws)
        = map2 spacedDividerCell ws cs"
    using assms by (auto simp: list_eq_iff_nth_eq nth_enumerate_eq)
  ultimately show ?thesis by (simp add: buildDividerRow_def)
qed

theorem buildDividerRow_cells_witness:
  "length [4, 3, 5 :: nat]
     = length [StructColumn \<lparr>name = ''Cost'', field = None, align = Some ''right''\<rparr>,
               StructColumn \<lparr>name = ''Mid'', field = None, align = Some ''center''\<rparr>,
               BareColumn ''Notes'']
   \<and> buildDividerRow [4, 3, 5]
        [StructColumn \<lparr>name = ''Cost'', field = None, align = Some ''right''\<rparr>,
         StructColumn \<lparr>name = ''Mid'', field = None, align = Some ''center''\<rparr>,
         BareColumn ''Notes'']
      = Inr ''| ----:|:---:| ----- |''"
  using buildDividerRow_cells [of "[4, 3, 5]"
        "[StructColumn \<lparr>name = ''Cost'', field = None, align = Some ''right''\<rparr>,
         StructColumn \<lparr>name = ''Mid'', field = None, align = Some ''center''\<rparr>,
         BareColumn ''Notes'']"]
  apply (simp add: spacedDividerCell_def alignOf_def)
  apply (simp add: numeral_eq_Suc)
  done

subsection \<open>Column widths\<close>

lemma isUndefined_iff: "isUndefined v \<longleftrightarrow> v = JUndefined"
  by (cases v) (simp_all add: isUndefined_def)

lemma columnCellTexts_set:
  "columnCellTexts rE options pcv i column rs prev = Inr texts \<Longrightarrow>
   set texts = set prev \<union> definedCellTexts rE options pcv i column rs"
proof (induction rs arbitrary: prev)
  case Nil
  then show ?case by (simp add: definedCellTexts_def)
next
  case (Cons row rest)
  show ?case
  proof (cases "cellValue i column row = JUndefined")
    case True
    with Cons.prems have "columnCellTexts rE options pcv i column rest prev = Inr texts"
      by (simp add: isUndefined_iff)
    from Cons.IH[OF this] True show ?thesis
      by (auto simp: definedCellTexts_def)
  next
    case False
    with Cons.prems obtain s where
      s: "renderCellText rE (cellValue i column row) options pcv = JStr s"
      and rest: "columnCellTexts rE options pcv i column rest (prev @ [s]) = Inr texts"
      by (auto simp: isUndefined_iff split: jsval.splits)
    from Cons.IH[OF rest] False s show ?thesis
      by (auto simp: definedCellTexts_def)
  qed
qed

lemma foldl_max:
  "foldl (\<lambda>prev x. max m (max prev x)) a (x # xs) = max m (max a (Max (set (x # xs))))"
proof (induction xs arbitrary: a x)
  case Nil
  then show ?case by simp
next
  case (Cons y ys)
  have "foldl (\<lambda>prev x. max m (max prev x)) a (x # y # ys)
        = foldl (\<lambda>prev x. max m (max prev x)) (max m (max a x)) (y # ys)"
    by simp
  also have "\<dots> = max m (max (max m (max a x)) (Max (set (y # ys))))"
    by (rule Cons.IH)
  also have "\<dots> = max m (max a (max x (Max (set (y # ys)))))"
    by (simp add: max.assoc max.left_commute)
  also have "max x (Max (set (y # ys))) = Max (set (x # y # ys))"
    by simp
  finally show ?case .
qed

lemma reduceMax_Cons: "reduceMax (x # xs) = Max (insert 3 (insert x (set xs)))"
proof -
  have "reduceMax (x # xs) = max 3 (max 0 (Max (set (x # xs))))"
    unfolding reduceMax_def minColumnWidth_def by (rule foldl_max)
  also have "\<dots> = Max (insert 3 (insert x (set xs)))"
    by simp
  finally show ?thesis .
qed

text \<open>
  Claim C4. When the width computation succeeds, the width of column \<open>i\<close> is the
  maximum of 3, the length of the header's display name and the lengths of the rendered
  texts of the rows whose value in column \<open>i\<close> is defined; a row whose value there is
  undefined contributes nothing.
\<close>

theorem cellWidthsOf_width:
  assumes "cellWidthsOf rE t pcv options = Inr ws" and "i < length (columns t)"
  shows "ws ! i = Max ({3, length (getColumnName (columns t ! i))}
                       \<union> length ` definedCellTexts rE options pcv i (columns t ! i) (rows t))"
proof -
  have "columnWidth rE t pcv options ([0..<length (columns t)] ! i) = Inr (ws ! i)"
    using assms by (intro mapE_nth) (simp_all add: cellWidthsOf_def)
  then have cw: "columnWidth rE t pcv options i = Inr (ws ! i)"
    using assms(2) by simp
  then obtain texts where
    texts: "columnCellTexts rE options pcv i (columns t ! i) (rows t) [] = Inr texts"
    and w: "ws ! i = reduceMax (getColumnHeaderTextLength (columns t ! i) # map length texts)"
    by (auto simp: columnWidth_def split: sum.splits)
  have h: "getColumnHeaderTextLength (columns t ! i) = length (getColumnName (columns t ! i))"
    by (simp add: getColumnHeaderTextLength_def getColumnName_def split: Column.splits)
  from columnCellTexts_set[OF texts]
  have "set texts = definedCellTexts rE options pcv i (columns t ! i) (rows t)" by simp
  with w h show ?thesis
    by (simp add: reduceMax_Cons)
qed

theorem cellWidthsOf_width_witness:
  "cellWidthsOf sampleRenderEntries nameAgeTable None \<lparr>prefix = None\<rparr> = Inr [5, 3]
   \<and> 0 < length (columns nameAgeTable)
   \<and> [5, 3] ! 0
       = Max ({3, length (getColumnName (columns nameAgeTable ! 0))}
              \<union> length ` definedCellTexts sampleRenderEntries \<lparr>prefix = None\<rparr> None 0
                           (columns nameAgeTable ! 0) (rows nameAgeTable))"
proof -
  have h: "cellWidthsOf sampleRenderEntries nameAgeTable None \<lparr>prefix = None\<rparr> = Inr [5, 3]"
    by code_simp
  have l: "0 < length (columns nameAgeTable)"
    by (simp add: nameAgeTable_def)
  from cellWidthsOf_width[OF h l] h l show ?thesis by simp
qed

subsection \<open>Missing values of a mapping row\<close>

lemma padAlign_empty:
  "alignTyped column \<Longrightarrow> padAlign [] w column = replicate w (CHR '' '')"
proof -
  have "toLength (of_int (int w) / 2) = w div 2"
    using toLength_half[of 0 w] by simp
  moreover have "replicate (w div 2) (CHR '' '') @ replicate (w - w div 2) (CHR '' '')
                 = replicate w (CHR '' '')"
    by (simp add: replicate_add[symmetric])
  ultimately show "alignTyped column \<Longrightarrow> padAlign [] w column = replicate w (CHR '' '')"
    by (auto simp: alignTyped_def alignOf_def padAlign_def padStart_space padEnd_space falsy_def
             split: Column.splits)
qed

lemma cellWidthsOf_length: "cellWidthsOf rE t pcv options = Inr ws \<Longrightarrow> length ws = length (columns t)"
  by (auto simp: cellWidthsOf_def dest: mapE_length)

lemma dataRowCells_mapping_length:
  "dataRowCells rE entry t ws cols options (ObjectRow kvs) = Inr cells \<Longrightarrow>
   length cells = length cols"
  by (auto simp: dataRowCells_def dest: mapE_length)

lemma dataRowCells_mapping_cell:
  assumes cells: "dataRowCells rE entry t ws (columns t) options (ObjectRow kvs) = Inr cells"
    and len: "length ws = length (columns t)"
    and i: "i < length (columns t)"
  shows "\<exists>s. orEmpty (renderCellText rE (getProp kvs (getDataRowPropertyName (columns t ! i)))
                       options (prefixCellValues entry)) = JStr s
             \<and> cells ! i = padAlign s (ws ! i) (columns t ! i)"
proof -
  let ?f = "\<lambda>(index, column).
      padCell (orEmpty (renderCellText rE (getProp kvs (getDataRowPropertyName column))
                          options (prefixCellValues entry)))
        ws (columns t) index"
  from cells have m: "mapE ?f (enumerate 0 (columns t)) = Inr cells"
    by (simp add: dataRowCells_def)
  from mapE_nth[OF m, of i] i
  have "?f (i, columns t ! i) = Inr (cells ! i)"
    by (simp add: nth_enumerate_eq)
  with i len show ?thesis
    by (auto simp: padCell_def widthAt_def split: jsval.splits)
qed

text \<open>
  Claim C7 has the cell of a missing key consist of spaces only. The cell is the padded
  rendering of the undefined value, and the rendering engine puts the prefix in front
  of every line it renders, the empty one too: with the prefix \<^verbatim>\<open>> \<close> the row
  \<^verbatim>\<open>{a: 'x'}\<close> under the columns \<^verbatim>\<open>a\<close> and \<^verbatim>\<open>b\<close> has the cells \<^verbatim>\<open>> x\<close> and \<^verbatim>\<open>>  \<close>. Nor
  is a cell padded when the replacer has rewritten the column's \<^verbatim>\<open>align\<close>: with a
  replacer that appends \<^verbatim>\<open>!\<close>, the column aligned \<^verbatim>\<open>left\<close> of width 3 gets the empty
  cell unpadded.
\<close>

theorem dataRowCells_missing_key_counterexample:
  "map_of [(''a'', JStr ''x'')] (getDataRowPropertyName
        (columns (twoColumnTable (ObjectRow [(''a'', JStr ''x'')])) ! 1)) = None
   \<and> cellWidthsOf sampleRenderEntries (twoColumnTable (ObjectRow [(''a'', JStr ''x'')]))
        (prefixCellValues (twoColumnEntry (ObjectRow [(''a'', JStr ''x'')])))
        \<lparr>prefix = Some ''> ''\<rparr> = Inr [3, 3]
   \<and> dataRowCells sampleRenderEntries (twoColumnEntry (ObjectRow [(''a'', JStr ''x'')]))
        (twoColumnTable (ObjectRow [(''a'', JStr ''x'')])) [3, 3]
        (columns (twoColumnTable (ObjectRow [(''a'', JStr ''x'')])))
        \<lparr>prefix = Some ''> ''\<rparr> (ObjectRow [(''a'', JStr ''x'')])
       = Inr [''> x'', ''>  '']
   \<and> fst (tableRenderer sampleRenderEntries (twoColumnEntry (ObjectRow [(''a'', JStr ''x'')]))
            \<lparr>prefix = Some ''> ''\<rparr>)
       = Inr \<lparr>markdown = ''| a   | b   |'' @ [CHR 0x0A] @ ''| --- | --- |'' @ [CHR 0x0A]
                  @ ''| > x | >   |'',
              blockLevel = True\<rparr>
   \<and> fst (tableRenderer sampleRenderEntries bangEntry \<lparr>prefix = None\<rparr>)
       = Inr \<lparr>markdown = ''| a!! |'' @ [CHR 0x0A] @ ''| --- |'' @ [CHR 0x0A] @ ''|  |'',
              blockLevel = True\<rparr>"
proof (intro conjI)
  show "map_of [(''a'', JStr ''x'')] (getDataRowPropertyName
          (columns (twoColumnTable (ObjectRow [(''a'', JStr ''x'')])) ! 1)) = None"
    by (simp add: twoColumnTable_def getDataRowPropertyName_def)
qed code_simp+

text \<open>
  Claim C7, amended. In the data row of a mapping row, the cell of a column whose field
  key the mapping does not have is the rendering of the undefined value
  (\<^verbatim>\<open>renderCellText(undefined) ?? ''\<close>, a string whenever the row renders), padded by
  \<^verbatim>\<open>padAlign\<close> for the column's computed width. When that rendering is the empty string
  (as it is when no prefix reaches the cell) and the column's \<^verbatim>\<open>align\<close>, as it stands
  after the escaping, is within its type, the cell consists of spaces only, exactly as
  many as the computed width.
\<close>

theorem dataRowCells_missing_key:
  assumes ws: "cellWidthsOf rE t (prefixCellValues entry) options = Inr ws"
    and cells: "dataRowCells rE entry t ws (columns t) options (ObjectRow kvs) = Inr cells"
    and i: "i < length (columns t)"
    and missing: "map_of kvs (getDataRowPropertyName (columns t ! i)) = None"
  shows "\<exists>s. orEmpty (renderCellText rE JUndefined options (prefixCellValues entry)) = JStr s
             \<and> cells ! i = padAlign s (ws ! i) (columns t ! i)
             \<and> (s = [] \<and> alignTyped (columns t ! i) \<longrightarrow>
                  cells ! i = replicate (ws ! i) (CHR '' '') \<and> length (cells ! i) = ws ! i)"
proof -
  have len: "length ws = length (columns t)"
    using ws by (rule cellWidthsOf_length)
  from dataRowCells_mapping_cell[OF cells len i] missing
  obtain s where
    s: "orEmpty (renderCellText rE JUndefined options (prefixCellValues entry)) = JStr s"
    and c: "cells ! i = padAlign s (ws ! i) (columns t ! i)"
    by (auto simp: getProp_def)
  have "cells ! i = replicate (ws ! i) (CHR '' '') \<and> length (cells ! i) = ws ! i"
    if "s = []" and "alignTyped (columns t ! i)"
    using that c by (simp add: padAlign_empty)
  with s c show ?thesis by blast
qed

theorem dataRowCells_missing_key_witness:
  "cellWidthsOf sampleRenderEntries nameAgeTable (prefixCellValues nameAgeEntry) \<lparr>prefix = None\<rparr>
     = Inr [5, 3]
   \<and> dataRowCells sampleRenderEntries nameAgeEntry nameAgeTable [5, 3] (columns nameAgeTable)
        \<lparr>prefix = None\<rparr> (ObjectRow [(''Name'', JStr ''Bo'')]) = Inr [''Bo   '', ''   '']
   \<and> 1 < length (columns nameAgeTable)
   \<and> map_of [(''Name'', JStr ''Bo'')] (getDataRowPropertyName (columns nameAgeTable ! 1)) = None
   \<and> orEmpty (renderCellText sampleRenderEntries JUndefined \<lparr>prefix = None\<rparr>
         (prefixCellValues nameAgeEntry)) = JStr []
   \<and> alignTyped (columns nameAgeTable ! 1)
   \<and> [''Bo   '', ''   ''] ! 1 = padAlign [] ([5, 3] ! 1) (columns nameAgeTable ! 1)
   \<and> [''Bo   '', ''   ''] ! 1 = replicate ([5, 3] ! 1) (CHR '' '')
   \<and> length ([''Bo   '', ''   ''] ! 1) = [5, 3] ! (1::nat)"
proof -
  have 1: "cellWidthsOf sampleRenderEntries nameAgeTable (prefixCellValues nameAgeEntry)
             \<lparr>prefix = None\<rparr> = Inr [5, 3]"
    by code_simp
  have 2: "dataRowCells sampleRenderEntries nameAgeEntry nameAgeTable [5, 3] (columns nameAgeTable)
        \<lparr>prefix = None\<rparr> (ObjectRow [(''Name'', JStr ''Bo'')]) = Inr [''Bo   '', ''   '']"
    by code_simp
  have 3: "1 < length (columns nameAgeTable)"
    by (simp add: nameAgeTable_def)
  have 4: "map_of [(''Name'', JStr ''Bo'')] (getDataRowPropertyName (columns nameAgeTable ! 1)) = None"
    by (simp add: nameAgeTable_def getDataRowPropertyName_def)
  have 5: "orEmpty (renderCellText sampleRenderEntries JUndefined \<lparr>prefix = None\<rparr>
         (prefixCellValues nameAgeEntry)) = JStr []"
    by (simp add: orEmpty_def renderCellText_def sampleRenderEntries_def renderOne_def)
  have 6: "alignTyped (columns nameAgeTable ! 1)"
    by (simp add: nameAgeTable_def alignTyped_def alignOf_def)
  from dataRowCells_missing_key[OF 1 2 3 4] obtain s where
    s: "orEmpty (renderCellText sampleRenderEntries JUndefined \<lparr>prefix = None\<rparr>
          (prefixCellValues nameAgeEntry)) = JStr s"
    and c: "[''Bo   '', ''   ''] ! 1 = padAlign s ([5, 3] ! 1) (columns nameAgeTable ! 1)"
    and e: "s = [] \<and> alignTyped (columns nameAgeTable ! 1) \<longrightarrow>
            [''Bo   '', ''   ''] ! 1 = replicate ([5, 3] ! 1) (CHR '' '')
            \<and> length ([''Bo   '', ''   ''] ! 1) = [5, 3] ! 1"
    by blast
  from s 5 have "s = []" by simp
  with c e 6 1 2 3 4 5 show ?thesis by simp
qed

subsection \<open>The number of lines\<close>

lemma mapE_set: "mapE f xs = Inr ys \<Longrightarrow> y \<in> set ys \<Longrightarrow> \<exists>x\<in>set xs. f x = Inr y"
  by (induction xs arbitrary: ys) (auto split: sum.splits)

lemma split_length: "length (split s c) = Suc (count_list s c)"
  by (induction s) (auto split: list.splits)

lemma count_list_notin: "c \<notin> set x \<Longrightarrow> count_list x c = 0"
  by (induction x) auto

lemma join_count:
  "(\<And>x. x \<in> set xs \<Longrightarrow> c \<notin> set x) \<Longrightarrow> count_list (join [c] xs) c = length xs - 1"
  by (induction "[c]" xs rule: join.induct) (auto simp: count_list_notin)

lemma join_chars: "set (join sep xs) \<subseteq> set sep \<union> \<Union>(set ` set xs)"
  by (induction sep xs rule: join.induct) auto

lemma padAlign_chars: "set (padAlign t w column) \<subseteq> insert (CHR '' '') (set t)"
  by (auto simp: padAlign_def padStart_space padEnd_space split: Column.splits if_splits)

lemma padCell_chars:
  "padCell v ws cs i = Inr cell \<Longrightarrow> \<exists>s. v = JStr s \<and> set cell \<subseteq> insert (CHR '' '') (set s)"
  using padAlign_chars
  by (auto simp: padCell_def split: if_splits jsval.splits)

lemma buildHeaderRow_single_line:
  assumes "buildHeaderRow entry ws cs = Inr header" and "table entry = Some t"
    and "\<And>c. c \<in> set (columns t) \<Longrightarrow> CHR 0x0A \<notin> set (getColumnName c)"
  shows "CHR 0x0A \<notin> set header"
proof -
  from assms obtain cells where
    m: "mapE (headerCell ws cs) (enumerate 0 (columns t)) = Inr cells"
    and h: "header = ''| '' @ join '' | '' cells @ '' |''"
    by (auto simp: buildHeaderRow_def split: sum.splits)
  have "CHR 0x0A \<notin> set cell" if "cell \<in> set cells" for cell
  proof -
    from mapE_set[OF m that] obtain index column where
      ic: "(index, column) \<in> set (enumerate 0 (columns t))"
      and c: "padCell (JStr (getColumnName column)) ws cs index = Inr cell"
      by (auto simp: headerCell_def)
    from ic have "column \<in> set (columns t)" by (auto simp: in_set_enumerate_eq)
    with assms(3) padCell_chars[OF c] show ?thesis by auto
  qed
  with join_chars[of "'' | ''" cells] show ?thesis
    unfolding h by auto
qed

lemma buildDividerRow_single_line:
  assumes "buildDividerRow ws cs = Inr divider"
  shows "CHR 0x0A \<notin> set divider"
proof -
  from assms obtain cells where
    m: "mapE (dividerCell cs) (enumerate 0 ws) = Inr cells"
    and d: "divider = ''|'' @ join ''|'' cells @ ''|''"
    by (auto simp: buildDividerRow_def split: sum.splits)
  have "CHR 0x0A \<notin> set cell" if "cell \<in> set cells" for cell
    using mapE_set[OF m that]
    by (auto simp: dividerCell_def padStart_def filler_single
          getLeftSideAlignmentCharacter_def getRightSideAlignmentCharacter_def
          split: if_splits Column.splits)
  with join_chars[of "''|''" cells] show ?thesis
    unfolding d by auto
qed

lemma orEmpty_singleLine: "singleLine v \<Longrightarrow> singleLine (orEmpty v)"
  by (cases v) (auto simp: orEmpty_def singleLine_def)

lemma dataRow_single_line:
  assumes "dataRow rE entry t ws cs options row = Inr line"
    and "\<And>v. v \<in> set (rowValues cs row) \<Longrightarrow>
           singleLine (renderCellText rE v options (prefixCellValues entry))"
  shows "CHR 0x0A \<notin> set line"
proof -
  from assms(1) obtain cells where
    m: "dataRowCells rE entry t ws cs options row = Inr cells"
    and l: "line = ''| '' @ join '' | '' cells @ '' |''"
    by (auto simp: dataRow_def split: sum.splits)
  have "CHR 0x0A \<notin> set cell" if cell: "cell \<in> set cells" for cell
  proof (cases row)
    case (ArrayRow vs)
    with m have "mapE (\<lambda>(index, v).
        padCell (renderCellText rE v options (prefixCellValues entry)) ws (columns t) index)
        (enumerate 0 vs) = Inr cells"
      by (simp add: dataRowCells_def)
    from mapE_set[OF this cell] obtain index v where
      iv: "(index, v) \<in> set (enumerate 0 vs)"
      and c: "padCell (renderCellText rE v options (prefixCellValues entry)) ws (columns t) index
              = Inr cell"
      by auto
    from iv ArrayRow have "v \<in> set (rowValues cs row)"
      by (auto simp: in_set_enumerate_eq rowValues_def)
    from assms(2)[OF this] padCell_chars[OF c] show ?thesis
      by (auto simp: singleLine_def)
  next
    case (ObjectRow kvs)
    with m have "mapE (\<lambda>(index, column).
        padCell (orEmpty (renderCellText rE (getProp kvs (getDataRowPropertyName column))
                   options (prefixCellValues entry))) ws (columns t) index)
        (enumerate 0 cs) = Inr cells"
      by (simp add: dataRowCells_def)
    from mapE_set[OF this cell] obtain index column where
      ic: "(index, column) \<in> set (enumerate 0 cs)"
      and c: "padCell (orEmpty (renderCellText rE (getProp kvs (getDataRowPropertyName column))
                   options (prefixCellValues entry))) ws (columns t) index = Inr cell"
      by auto
    from ic ObjectRow have "getProp kvs (getDataRowPropertyName column) \<in> set (rowValues cs row)"
      by (auto simp: in_set_enumerate_eq rowValues_def)
    from orEmpty_singleLine[OF assms(2)[OF this]] padCell_chars[OF c] show ?thesis
      by (auto simp: singleLine_def)
  qed
  with join_chars[of "'' | ''" cells] show ?thesis
    unfolding l by auto
qed

lemma escapeEntry_rows:
  "table entry = Some t \<Longrightarrow> table (escapeEntry rep entry) = Some t' \<Longrightarrow>
   length (rows t') = length (rows t)"
  by (auto simp: escapeEntry_def escapeTable_def)

lemma escapeEntry_prefixCellValues:
  "prefixCellValues (escapeEntry rep entry) = prefixCellValues entry"
  by (simp add: escapeEntry_def)

lemma getTableMarkdown_entry:
  "snd (getTableMarkdown rE entry options)
   = escapeEntry (case pipeReplacer entry of None \<Rightarrow> defaultPipeReplacer | Some f \<Rightarrow> f) entry"
  by (simp add: getTableMarkdown_def Let_def)

lemma tableRenderer_entry:
  "table entry = Some t \<Longrightarrow>
   snd (tableRenderer rE entry options)
   = escapeEntry (case pipeReplacer entry of None \<Rightarrow> defaultPipeReplacer | Some f \<Rightarrow> f) entry"
  using getTableMarkdown_entry[of rE entry options]
  by (auto simp: tableRenderer_def split: prod.splits sum.splits)

text \<open>
  Claim C3 counts \<open>rows.length + 2\<close> lines in every table that renders. A column whose
  name contains a line break renders, and its header alone takes two lines: with no rows
  the table has three lines, not two.
\<close>

theorem tableRenderer_line_count_counterexample:
  "fst (tableRenderer sampleRenderEntries headerBreakEntry \<lparr>prefix = None\<rparr>)
     = Inr \<lparr>markdown = ''| a'' @ [CHR 0x0A] @ ''b |'' @ [CHR 0x0A] @ ''| --- |'',
            blockLevel = True\<rparr>
   \<and> length (split (''| a'' @ [CHR 0x0A] @ ''b |'' @ [CHR 0x0A] @ ''| --- |'') (CHR 0x0A)) = 3
   \<and> length (rows headerBreakTable) + 2 = 2"
  by code_simp

text \<open>
  Claim C3, amended. When the rendering succeeds and, in the entry as escaped, no column
  display name contains a line break and no value of a row renders to a text that
  contains one, the markdown split at line breaks has exactly \<open>rows.length + 2\<close> lines:
  the header, the divider and one line per row.
\<close>

theorem tableRenderer_line_count:
  assumes ok: "fst (tableRenderer rE entry options) = Inr out"
    and t: "table entry = Some t"
    and t': "table (snd (tableRenderer rE entry options)) = Some t'"
    and names: "\<forall>c\<in>set (columns t'). CHR 0x0A \<notin> set (getColumnName c)"
    and texts: "\<forall>r\<in>set (rows t'). \<forall>v\<in>set (rowValues (columns t') r).
                  singleLine (renderCellText rE v options (prefixCellValues entry))"
  shows "length (split (markdown out) (CHR 0x0A)) = length (rows t) + 2"
proof -
  let ?rep = "case pipeReplacer entry of None \<Rightarrow> defaultPipeReplacer | Some f \<Rightarrow> f"
  define entry' where "entry' = escapeEntry ?rep entry"
  have e': "snd (getTableMarkdown rE entry options) = entry'"
    by (simp add: getTableMarkdown_entry entry'_def)
  have te': "table entry' = Some t'"
    using t' tableRenderer_entry[OF t, of rE options] by (simp add: entry'_def)
  from ok t have g: "fst (getTableMarkdown rE entry options) = Inr (markdown out)"
    by (auto simp: tableRenderer_def split: prod.splits sum.splits)
  with te' obtain ws header divider dataRows where
    h: "buildHeaderRow entry' ws (columns t') = Inr header"
    and d: "buildDividerRow ws (columns t') = Inr divider"
    and r: "buildDataRows rE entry' ws (columns t') options = Inr dataRows"
    and md: "markdown out = join newline (header # divider # dataRows)"
    by (auto simp: getTableMarkdown_def Let_def entry'_def split: sum.splits)
  from r te' have m: "mapE (dataRow rE entry' t' ws (columns t') options) (rows t') = Inr dataRows"
    by (simp add: buildDataRows_def)
  have pcv: "prefixCellValues entry' = prefixCellValues entry"
    by (simp add: entry'_def escapeEntry_prefixCellValues)
  have len: "length dataRows = length (rows t)"
    using mapE_length[OF m] escapeEntry_rows[OF t, of ?rep t'] te' by (simp add: entry'_def)
  have "CHR 0x0A \<notin> set header"
    using names by (intro buildHeaderRow_single_line[OF h te']) auto
  moreover have "CHR 0x0A \<notin> set divider"
    using d by (rule buildDividerRow_single_line)
  moreover have "CHR 0x0A \<notin> set line" if "line \<in> set dataRows" for line
  proof -
    from mapE_set[OF m that] obtain row where
      row: "row \<in> set (rows t')"
      and l: "dataRow rE entry' t' ws (columns t') options row = Inr line"
      by auto
    show ?thesis
      using texts row pcv by (intro dataRow_single_line[OF l]) auto
  qed
  ultimately have "count_list (join [CHR 0x0A] (header # divider # dataRows)) (CHR 0x0A)
                   = length (header # divider # dataRows) - 1"
    by (intro join_count) auto
  with md len show ?thesis
    by (simp add: split_length newline_def)
qed

lemma escapeEntry_nameAgeEntry: "escapeEntry defaultPipeReplacer nameAgeEntry = nameAgeEntry"
  by (simp add: nameAgeEntry_def nameAgeTable_def escapeEntry_def escapeTable_def escapeRow_def
        escapeColumn_def defaultPipeReplacer_def)

theorem tableRenderer_line_count_witness:
  "fst (tableRenderer sampleRenderEntries nameAgeEntry \<lparr>prefix = None\<rparr>)
     = Inr \<lparr>markdown = ''| Name  | Age |'' @ [CHR 0x0A] @ ''| ----- | --- |'' @ [CHR 0x0A]
                @ ''| Alice | 30  |'' @ [CHR 0x0A] @ ''| Bo    |     |'',
            blockLevel = True\<rparr>
   \<and> length (split (''| Name  | Age |'' @ [CHR 0x0A] @ ''| ----- | --- |'' @ [CHR 0x0A]
                @ ''| Alice | 30  |'' @ [CHR 0x0A] @ ''| Bo    |     |'') (CHR 0x0A))
       = length (rows nameAgeTable) + 2"
proof -
  have 1: "fst (tableRenderer sampleRenderEntries nameAgeEntry \<lparr>prefix = None\<rparr>)
     = Inr \<lparr>markdown = ''| Name  | Age |'' @ [CHR 0x0A] @ ''| ----- | --- |'' @ [CHR 0x0A]
                @ ''| Alice | 30  |'' @ [CHR 0x0A] @ ''| Bo    |     |'',
            blockLevel = True\<rparr>"
    by code_simp
  have 2: "table nameAgeEntry = Some nameAgeTable"
    by (simp add: nameAgeEntry_def)
  have 3: "table (snd (tableRenderer sampleRenderEntries nameAgeEntry \<lparr>prefix = None\<rparr>))
           = Some nameAgeTable"
  proof -
    have "pipeReplacer nameAgeEntry = None" by (simp add: nameAgeEntry_def)
    with tableRenderer_entry[OF 2, of sampleRenderEntries "\<lparr>prefix = None\<rparr>"] 2
    show ?thesis by (simp add: escapeEntry_nameAgeEntry)
  qed
  have 4: "\<forall>c\<in>set (columns nameAgeTable). CHR 0x0A \<notin> set (getColumnName c)"
    by (simp add: nameAgeTable_def getColumnName_def)
  have 5: "\<forall>r\<in>set (rows nameAgeTable). \<forall>v\<in>set (rowValues (columns nameAgeTable) r).
             singleLine (renderCellText sampleRenderEntries v \<lparr>prefix = None\<rparr>
                           (prefixCellValues nameAgeEntry))"
    by (simp add: nameAgeTable_def nameAgeEntry_def rowValues_def getProp_def
          getDataRowPropertyName_def renderCellText_def sampleRenderEntries_def singleLine_def
          renderOne_def newline_def)
  from tableRenderer_line_count[OF 1 2 3 4 5] 1 show ?thesis
    by simp
qed

subsection \<open>Escaped field keys\<close>

lemma replaceAll_changes: "c \<in> set s \<Longrightarrow> c \<notin> set r \<Longrightarrow> replaceAll s c r \<noteq> s"
  using replaceAll_notin[of c r s] by auto

lemma defaultPipeReplacer_changes: "CHR ''|'' \<in> set f \<Longrightarrow> defaultPipeReplacer f \<noteq> f"
  unfolding defaultPipeReplacer_def by (rule replaceAll_changes) simp_all

lemma optProp_escape:
  "map (map_prod id (escapePipes rep)) (optProp key JStr v) = optProp key JStr (map_option rep v)"
  by (cases v) (simp_all add: optProp_def)

lemma escapePipes_jsColumn: "escapePipes rep (jsColumn column) = jsColumn (escapeColumn rep column)"
  by (cases column) (simp_all add: jsColumn_def escapeColumn_def optProp_escape)

lemma escapePipes_jsRow: "escapePipes rep (jsRow row) = jsRow (escapeRow rep row)"
  by (cases row) (simp_all add: jsRow_def escapeRow_def)

lemma escapePipes_jsTable: "escapePipes rep (jsTable t) = jsTable (escapeTable rep t)"
  by (simp add: jsTable_def escapeTable_def escapePipes_jsColumn escapePipes_jsRow)

lemma escapePipes_jsEntry: "escapePipes rep (jsEntry entry) = jsEntry (escapeEntry rep entry)"
  by (cases "table entry"; cases "append_str entry"; cases "pipeReplacer entry";
      cases "prefixCellValues entry")
     (simp_all add: jsEntry_def escapeEntry_def optProp_def escapePipes_jsTable)

lemma escapeColumn_twice_default:
  "escapeColumn defaultPipeReplacer (escapeColumn defaultPipeReplacer column)
   = escapeColumn defaultPipeReplacer column"
  by (cases column) (auto simp: escapeColumn_def defaultPipeReplacer_idem option.map_comp comp_def
        intro!: option.map_cong)

lemma map_of_escaped:
  "map_of (map (map_prod id g) kvs) k = map_option g (map_of kvs k)"
  by (induction kvs) auto

lemma alignTyped_escape:
  "alignTyped column \<Longrightarrow> alignTyped (escapeColumn defaultPipeReplacer column)"
  by (cases column)
     (auto simp: alignTyped_def alignOf_def escapeColumn_def defaultPipeReplacer_def)

text \<open>
  Claim C10 concludes that the lookups of a column whose \<^verbatim>\<open>field\<close> contains a pipe always
  miss. They miss the value stored under the original key, but they are lookups under
  the escaped key, and a row that has that key is read: here the row holds \<^verbatim>\<open>y\<close> under
  \<^verbatim>\<open>a|b\<close> and \<^verbatim>\<open>x\<close> under \<^verbatim>\<open>a&#124;b\<close>, and the cell shows \<^verbatim>\<open>x\<close>.
\<close>

theorem escaped_field_lookup_counterexample:
  "CHR ''|'' \<in> set ''a|b''
   \<and> fst (tableRenderer sampleRenderEntries
            (pipeFieldEntry [(''a|b'', JStr ''y''), (''a&#124;b'', JStr ''x'')]) \<lparr>prefix = None\<rparr>)
       = Inr \<lparr>markdown = ''| n   |'' @ [CHR 0x0A] @ ''| --- |'' @ [CHR 0x0A] @ ''| x   |'',
              blockLevel = True\<rparr>"
  by code_simp


text \<open>
  Claim C10, amended. With the default replacer the escaping rewrites every string of
  the entry object in place, the \<^verbatim>\<open>append\<close> string and the \<^verbatim>\<open>field\<close> of a structured
  column among them, and leaves the keys of mapping rows as they are. A \<^verbatim>\<open>field\<close> \<open>f\<close>
  that contains a pipe is stored as its escaped form, which differs from \<open>f\<close>, and the
  column's lookups use the escaped form: in every mapping row the column's cell is the
  padded rendering of what the row holds under the escaped form, never of what it holds
  under \<open>f\<close>. A row with an entry under the escaped form renders that entry (escaped);
  a row without one renders the undefined value, which gives a cell of spaces only when
  that rendering is empty and the column's \<^verbatim>\<open>align\<close> is within its type.
\<close>

theorem escaped_field_lookup:
  assumes rep: "pipeReplacer entry = None"
    and t: "table entry = Some t"
    and i: "i < length (columns t)"
    and col: "columns t ! i = StructColumn c"
    and f: "field c = Some f"
    and pipe: "CHR ''|'' \<in> set f"
    and j: "j < length (rows t)"
    and row: "rows t ! j = ObjectRow kvs"
    and e': "snd (getTableMarkdown rE entry options) = entry'"
    and t': "table entry' = Some t'"
    and ws: "cellWidthsOf rE t' (prefixCellValues entry') options = Inr ws"
    and cells: "dataRowCells rE entry' t' ws (columns t') options (rows t' ! j) = Inr cells"
  shows "jsEntry entry' = escapePipes defaultPipeReplacer (jsEntry entry)
       \<and> append_str entry' = map_option defaultPipeReplacer (append_str entry)
       \<and> defaultPipeReplacer f \<noteq> f
       \<and> getDataRowPropertyName (columns t' ! i) = defaultPipeReplacer f
       \<and> (\<exists>s. orEmpty (renderCellText rE
                    (case map_of kvs (defaultPipeReplacer f) of
                       None \<Rightarrow> JUndefined
                     | Some v \<Rightarrow> escapePipes defaultPipeReplacer v)
                    options (prefixCellValues entry)) = JStr s
              \<and> cells ! i = padAlign s (ws ! i) (columns t' ! i)
              \<and> (map_of kvs (defaultPipeReplacer f) = None \<and> s = []
                   \<and> alignTyped (columns t ! i) \<longrightarrow>
                  cells ! i = replicate (ws ! i) (CHR '' '')))"
proof -
  have entry': "entry' = escapeEntry defaultPipeReplacer entry"
    using e' rep by (simp add: getTableMarkdown_entry)
  with t t' have tt: "t' = escapeTable defaultPipeReplacer t"
    by (simp add: escapeEntry_def)
  have ci: "columns t' ! i = escapeColumn defaultPipeReplacer (columns t ! i)"
    using i by (simp add: tt escapeTable_def escapeColumn_twice_default)
  have key: "getDataRowPropertyName (columns t' ! i) = defaultPipeReplacer f"
    using col f by (simp add: ci escapeColumn_def getDataRowPropertyName_def)
  let ?kvs' = "map (map_prod id (escapePipes defaultPipeReplacer \<circ> escapePipes defaultPipeReplacer))
                 kvs"
  have rj: "rows t' ! j = ObjectRow ?kvs'"
    using j row by (simp add: tt escapeTable_def escapeRow_def map_prod.comp)
  have look: "getProp ?kvs' (defaultPipeReplacer f)
              = (case map_of kvs (defaultPipeReplacer f) of
                   None \<Rightarrow> JUndefined
                 | Some v \<Rightarrow> escapePipes defaultPipeReplacer v)"
    by (simp add: getProp_def map_of_escaped escapePipes_idem defaultPipeReplacer_idem
          split: option.splits)
  have len: "length ws = length (columns t')"
    using ws by (rule cellWidthsOf_length)
  have i': "i < length (columns t')"
    using i by (simp add: tt escapeTable_def)
  have pcv: "prefixCellValues entry' = prefixCellValues entry"
    by (simp add: entry' escapeEntry_prefixCellValues)
  from dataRowCells_mapping_cell[OF cells[unfolded rj] len i']
  obtain s where
    s: "orEmpty (renderCellText rE
          (case map_of kvs (defaultPipeReplacer f) of
             None \<Rightarrow> JUndefined
           | Some v \<Rightarrow> escapePipes defaultPipeReplacer v)
          options (prefixCellValues entry)) = JStr s"
    and c: "cells ! i = padAlign s (ws ! i) (columns t' ! i)"
    unfolding key look pcv by blast
  have "cells ! i = replicate (ws ! i) (CHR '' '')"
    if "s = []" and "alignTyped (columns t ! i)"
  proof -
    from that(2) have "alignTyped (columns t' ! i)"
      by (simp add: ci alignTyped_escape)
    with that(1) c show ?thesis by (simp add: padAlign_empty)
  qed
  moreover have "append_str entry' = map_option defaultPipeReplacer (append_str entry)"
    by (simp add: entry' escapeEntry_def)
  moreover have "jsEntry entry' = escapePipes defaultPipeReplacer (jsEntry entry)"
    by (simp add: entry' escapePipes_jsEntry)
  moreover note key defaultPipeReplacer_changes[OF pipe] s c
  ultimately show ?thesis by blast
qed

text \<open>
  The theorem at two rows under the field \<^verbatim>\<open>a|b\<close>: the row \<^verbatim>\<open>{'a|b': 'y'}\<close>, whose
  cell is empty, and the row \<^verbatim>\<open>{'a|b': 'y', 'a&#124;b': 'p|q'}\<close>, whose cell shows the
  entry under the escaped key, escaped.
\<close>

theorem escaped_field_lookup_witness:
  "CHR ''|'' \<in> set ''a|b''
   \<and> append_str (escapeEntry defaultPipeReplacer (pipeFieldEntry [(''a|b'', JStr ''y'')]))
       = Some ''x&#124;y''
   \<and> defaultPipeReplacer ''a|b'' \<noteq> ''a|b''
   \<and> getDataRowPropertyName
         (columns (escapeTable defaultPipeReplacer (pipeFieldTable [(''a|b'', JStr ''y'')])) ! 0)
       = ''a&#124;b''
   \<and> dataRowCells sampleRenderEntries
        (escapeEntry defaultPipeReplacer (pipeFieldEntry [(''a|b'', JStr ''y'')]))
        (escapeTable defaultPipeReplacer (pipeFieldTable [(''a|b'', JStr ''y'')])) [3]
        (columns (escapeTable defaultPipeReplacer (pipeFieldTable [(''a|b'', JStr ''y'')])))
        \<lparr>prefix = None\<rparr>
        (rows (escapeTable defaultPipeReplacer (pipeFieldTable [(''a|b'', JStr ''y'')])) ! 0)
       = Inr [''   '']
   \<and> [''   ''] ! 0 = replicate ([3] ! 0) (CHR '' '')
   \<and> dataRowCells sampleRenderEntries
        (escapeEntry defaultPipeReplacer
           (pipeFieldEntry [(''a|b'', JStr ''y''), (''a&#124;b'', JStr ''p|q'')]))
        (escapeTable defaultPipeReplacer
           (pipeFieldTable [(''a|b'', JStr ''y''), (''a&#124;b'', JStr ''p|q'')])) [8]
        (columns (escapeTable defaultPipeReplacer
           (pipeFieldTable [(''a|b'', JStr ''y''), (''a&#124;b'', JStr ''p|q'')])))
        \<lparr>prefix = None\<rparr>
        (rows (escapeTable defaultPipeReplacer
           (pipeFieldTable [(''a|b'', JStr ''y''), (''a&#124;b'', JStr ''p|q'')])) ! 0)
       = Inr [''p&#124;q'']
   \<and> [''p&#124;q''] ! 0
       = padAlign ''p&#124;q'' ([8] ! 0)
           (columns (escapeTable defaultPipeReplacer
              (pipeFieldTable [(''a|b'', JStr ''y''), (''a&#124;b'', JStr ''p|q'')])) ! 0)"
proof -
  let ?c = "\<lparr>name = ''n'', field = Some ''a|b'', align = None\<rparr>"
  have 5: "field ?c = Some ''a|b''" by simp
  have 6: "CHR ''|'' \<in> set ''a|b''" by simp
  have 16: "defaultPipeReplacer ''a|b'' = ''a&#124;b''"
    by (simp add: defaultPipeReplacer_def)
  have 17: "defaultPipeReplacer ''x|y'' = ''x&#124;y''"
    by (simp add: defaultPipeReplacer_def)
  have 19: "defaultPipeReplacer ''p|q'' = ''p&#124;q''"
    by (simp add: defaultPipeReplacer_def)
  have u: "orEmpty (renderCellText sampleRenderEntries JUndefined \<lparr>prefix = None\<rparr> None)
           = JStr []"
    by (simp add: orEmpty_def renderCellText_def sampleRenderEntries_def renderOne_def)
  have r: "orEmpty (renderCellText sampleRenderEntries (JStr ''p&#124;q'') \<lparr>prefix = None\<rparr> None)
           = JStr ''p&#124;q''"
    by (simp add: orEmpty_def renderCellText_def sampleRenderEntries_def renderOne_def
          newline_def)
  have miss: "[''   ''] ! 0 = replicate ([3] ! 0) (CHR '' '')
      \<and> append_str (escapeEntry defaultPipeReplacer (pipeFieldEntry [(''a|b'', JStr ''y'')]))
          = Some ''x&#124;y''
      \<and> getDataRowPropertyName
           (columns (escapeTable defaultPipeReplacer (pipeFieldTable [(''a|b'', JStr ''y'')])) ! 0)
          = ''a&#124;b''
      \<and> defaultPipeReplacer ''a|b'' \<noteq> ''a|b''
      \<and> dataRowCells sampleRenderEntries
        (escapeEntry defaultPipeReplacer (pipeFieldEntry [(''a|b'', JStr ''y'')]))
        (escapeTable defaultPipeReplacer (pipeFieldTable [(''a|b'', JStr ''y'')])) [3]
        (columns (escapeTable defaultPipeReplacer (pipeFieldTable [(''a|b'', JStr ''y'')])))
        \<lparr>prefix = None\<rparr>
        (rows (escapeTable defaultPipeReplacer (pipeFieldTable [(''a|b'', JStr ''y'')])) ! 0)
       = Inr [''   '']"
  proof -
    let ?kvs = "[(''a|b'', JStr ''y'')]"
    let ?e = "pipeFieldEntry ?kvs"
    let ?t = "pipeFieldTable ?kvs"
    let ?e' = "escapeEntry defaultPipeReplacer ?e"
    let ?t' = "escapeTable defaultPipeReplacer ?t"
    have 1: "pipeReplacer ?e = None" by (simp add: pipeFieldEntry_def)
    have 2: "table ?e = Some ?t" by (simp add: pipeFieldEntry_def)
    have 3: "0 < length (columns ?t)" by (simp add: pipeFieldTable_def)
    have 4: "columns ?t ! 0 = StructColumn ?c"
      by (simp add: pipeFieldTable_def pipeFieldColumn_def)
    have 7: "0 < length (rows ?t)" by (simp add: pipeFieldTable_def)
    have 8: "rows ?t ! 0 = ObjectRow ?kvs" by (simp add: pipeFieldTable_def)
    have 9: "map_of ?kvs (defaultPipeReplacer ''a|b'') = None"
      by (simp add: defaultPipeReplacer_def)
    have 11: "alignTyped (columns ?t ! 0)"
      by (simp add: pipeFieldTable_def pipeFieldColumn_def alignTyped_def alignOf_def)
    have 12: "snd (getTableMarkdown sampleRenderEntries ?e \<lparr>prefix = None\<rparr>) = ?e'"
      by (simp add: getTableMarkdown_entry 1)
    have 13: "table ?e' = Some ?t'" by (simp add: escapeEntry_def 2)
    have 14: "cellWidthsOf sampleRenderEntries ?t' (prefixCellValues ?e') \<lparr>prefix = None\<rparr>
              = Inr [3]"
      by code_simp
    have 15: "dataRowCells sampleRenderEntries ?e' ?t' [3] (columns ?t') \<lparr>prefix = None\<rparr>
                (rows ?t' ! 0) = Inr [''   '']"
      by code_simp
    have 18: "append_str ?e = Some ''x|y''" by (simp add: pipeFieldEntry_def)
    have pcv: "prefixCellValues ?e = None" by (simp add: pipeFieldEntry_def)
    from escaped_field_lookup[OF 1 2 3 4 5 6 7 8 12 13 14 15] 9 11 15 16 17 18 u pcv
    show ?thesis by auto
  qed
  have hit: "[''p&#124;q''] ! 0
       = padAlign ''p&#124;q'' ([8] ! 0)
           (columns (escapeTable defaultPipeReplacer
              (pipeFieldTable [(''a|b'', JStr ''y''), (''a&#124;b'', JStr ''p|q'')])) ! 0)
      \<and> dataRowCells sampleRenderEntries
        (escapeEntry defaultPipeReplacer
           (pipeFieldEntry [(''a|b'', JStr ''y''), (''a&#124;b'', JStr ''p|q'')]))
        (escapeTable defaultPipeReplacer
           (pipeFieldTable [(''a|b'', JStr ''y''), (''a&#124;b'', JStr ''p|q'')])) [8]
        (columns (escapeTable defaultPipeReplacer
           (pipeFieldTable [(''a|b'', JStr ''y''), (''a&#124;b'', JStr ''p|q'')])))
        \<lparr>prefix = None\<rparr>
        (rows (escapeTable defaultPipeReplacer
           (pipeFieldTable [(''a|b'', JStr ''y''), (''a&#124;b'', JStr ''p|q'')])) ! 0)
       = Inr [''p&#124;q'']"
  proof -
    let ?kvs = "[(''a|b'', JStr ''y''), (''a&#124;b'', JStr ''p|q'')]"
    let ?e = "pipeFieldEntry ?kvs"
    let ?t = "pipeFieldTable ?kvs"
    let ?e' = "escapeEntry defaultPipeReplacer ?e"
    let ?t' = "escapeTable defaultPipeReplacer ?t"
    have 1: "pipeReplacer ?e = None" by (simp add: pipeFieldEntry_def)
    have 2: "table ?e = Some ?t" by (simp add: pipeFieldEntry_def)
    have 3: "0 < length (columns ?t)" by (simp add: pipeFieldTable_def)
    have 4: "columns ?t ! 0 = StructColumn ?c"
      by (simp add: pipeFieldTable_def pipeFieldColumn_def)
    have 7: "0 < length (rows ?t)" by (simp add: pipeFieldTable_def)
    have 8: "rows ?t ! 0 = ObjectRow ?kvs" by (simp add: pipeFieldTable_def)
    have 9: "map_of ?kvs (defaultPipeReplacer ''a|b'') = Some (JStr ''p|q'')"
      by (simp add: defaultPipeReplacer_def)
    have 12: "snd (getTableMarkdown sampleRenderEntries ?e \<lparr>prefix = None\<rparr>) = ?e'"
      by (simp add: getTableMarkdown_entry 1)
    have 13: "table ?e' = Some ?t'" by (simp add: escapeEntry_def 2)
    have 14: "cellWidthsOf sampleRenderEntries ?t' (prefixCellValues ?e') \<lparr>prefix = None\<rparr>
              = Inr [8]"
      by code_simp
    have 15: "dataRowCells sampleRenderEntries ?e' ?t' [8] (columns ?t') \<lparr>prefix = None\<rparr>
                (rows ?t' ! 0) = Inr [''p&#124;q'']"
      by code_simp
    have pcv: "prefixCellValues ?e = None" by (simp add: pipeFieldEntry_def)
    from escaped_field_lookup[OF 1 2 3 4 5 6 7 8 12 13 14 15] 9 15 19 r pcv
    show ?thesis by auto
  qed
  from miss hit 6 show ?thesis by simp
qed

subsection \<open>A cell text with a line break\<close>

text \<open>
  Claim C1 has a cell that resolves to a text with a line break abort the rendering.
  The width loop throws when a rendering is not a string, with the message
  \<^verbatim>\<open>Multi-line table cell content is not supported\<close>, but the test is
  \<^verbatim>\<open>typeof result === 'string'\<close>: a string with a line break passes it. Here the cell
  \<^verbatim>\<open>line1\nline2\<close> resolves to itself and the table is rendered, its data row broken
  in two; a rendering that is not a string, here the number 7, is rejected.
\<close>

theorem multi_line_cell_renders:
  "sampleRenderEntries [JStr (''line1'' @ [CHR 0x0A] @ ''line2'')] \<lparr>prefix = Some []\<rparr>
     = JStr (''line1'' @ [CHR 0x0A] @ ''line2'')
   \<and> fst (tableRenderer sampleRenderEntries
            (multiLineEntry (JStr (''line1'' @ [CHR 0x0A] @ ''line2''))) \<lparr>prefix = Some []\<rparr>)
       = Inr \<lparr>markdown = ''| c           |'' @ [CHR 0x0A] @ ''| ----------- |'' @ [CHR 0x0A]
                  @ ''| line1'' @ [CHR 0x0A] @ ''line2 |'',
              blockLevel = True\<rparr>
   \<and> fst (tableRenderer (\<lambda>vs options. JNum 7) (multiLineEntry (JNum 7)) \<lparr>prefix = Some []\<rparr>)
       = Inl UnsupportedCellContent"
proof (intro conjI)
  show "sampleRenderEntries [JStr (''line1'' @ [CHR 0x0A] @ ''line2'')] \<lparr>prefix = Some []\<rparr>
          = JStr (''line1'' @ [CHR 0x0A] @ ''line2'')"
    by (simp add: sampleRenderEntries_def renderOne_def newline_def)
qed code_simp+

subsection \<open>The cells of a positional row\<close>

lemma dataRowCells_array_length:
  "dataRowCells rE entry t ws cols options (ArrayRow cells) = Inr cs \<Longrightarrow>
   length cs = length cells"
  by (auto simp: dataRowCells_def dest: mapE_length)

text \<open>
  Claim C6 gives every data row as many cells as there are columns. A mapping row has
  them, the missing ones padded; an array row has one cell per element of its own, so
  the row \<^verbatim>\<open>['x']\<close> under two columns is rendered with one cell, where the mapping row
  \<^verbatim>\<open>{a: 'x'}\<close> is rendered with two.
\<close>

theorem short_array_row_cells:
  "dataRowCells sampleRenderEntries (twoColumnEntry (ArrayRow [JStr ''x''])) 
      (twoColumnTable (ArrayRow [JStr ''x''])) [3, 3] [BareColumn ''a'', BareColumn ''b'']
      \<lparr>prefix = None\<rparr> (ArrayRow [JStr ''x'']) = Inr [''x  '']
   \<and> fst (tableRenderer sampleRenderEntries (twoColumnEntry (ArrayRow [JStr ''x'']))
            \<lparr>prefix = None\<rparr>)
       = Inr \<lparr>markdown = ''| a   | b   |'' @ [CHR 0x0A] @ ''| --- | --- |'' @ [CHR 0x0A]
                  @ ''| x   |'',
              blockLevel = True\<rparr>
   \<and> fst (tableRenderer sampleRenderEntries (twoColumnEntry (ObjectRow [(''a'', JStr ''x'')]))
            \<lparr>prefix = None\<rparr>)
       = Inr \<lparr>markdown = ''| a   | b   |'' @ [CHR 0x0A] @ ''| --- | --- |'' @ [CHR 0x0A]
                  @ ''| x   |     |'',
              blockLevel = True\<rparr>"
  by code_simp

end
